theory Spec2Isabelle
  imports Complex_Main "HOL-Library.Word"
begin

section \<open>Two-dimensional numpy arrays\<close>

text \<open>
  The scene interpreter (\<^verbatim>\<open>Surveillance/layers/scene.py\<close>) and the state estimator
  (\<^verbatim>\<open>Surveillance/activities/state.py\<close>) work on numpy arrays with two axes: depth and
  height maps, boolean layer masks, the signal and state caches. An array is kept as its
  column count together with its list of rows; the row count is the length of that list.
  numpy arrays are rectangular, which \<open>wf_array\<close> records.
\<close>

datatype 'a array2 = Array2 (ncols: nat) (rows: "'a list list")

definition nrows :: "'a array2 \<Rightarrow> nat" where
  "nrows a = length (rows a)"

definition shape :: "'a array2 \<Rightarrow> nat \<times> nat" where
  "shape a = (nrows a, ncols a)"

definition wf_array :: "'a array2 \<Rightarrow> bool" where
  "wf_array a = list_all (\<lambda>r. length r = ncols a) (rows a)"

definition elem :: "'a array2 \<Rightarrow> nat \<Rightarrow> nat \<Rightarrow> 'a" where
  "elem a i j = rows a ! i ! j"

definition tabulate :: "nat \<Rightarrow> nat \<Rightarrow> (nat \<Rightarrow> nat \<Rightarrow> 'a) \<Rightarrow> 'a array2" where
  "tabulate r c f = Array2 c (map (\<lambda>i. map (f i) [0..<c]) [0..<r])"

text \<open>An element-wise function of one array (\<^verbatim>\<open>np.abs\<close>, \<^verbatim>\<open>~\<close>, a comparison with a
  constant, \<^verbatim>\<open>astype\<close>).\<close>

definition amap :: "('a \<Rightarrow> 'b) \<Rightarrow> 'a array2 \<Rightarrow> 'b array2" where
  "amap f a = tabulate (nrows a) (ncols a) (\<lambda>i j. f (elem a i j))"

text \<open>The Python exceptions the modelled code can raise. An \<open>AssertionError\<close> carries the
  \<^verbatim>\<open>assert\<close> statement that failed (assertions are taken to be enabled, as they are
  unless the interpreter runs with \<^verbatim>\<open>-O\<close>).\<close>

datatype assert_site =
    DepthProcessed      \<comment> \<open>scene.py line 160: height map and depth are not None\<close>
  | LayerNameChoice     \<comment> \<open>scene.py line 182: layer name is one of the four choices\<close>
  | BEVMatrixStored     \<comment> \<open>scene.py line 192: the bird-eye-view matrix is not None\<close>

datatype error =
    AssertionError assert_site
  | AttributeError string
  | TypeError
  | ValueError
  | IndexError
  | NotCalibrated         \<comment> \<open>the height estimator, asked for a height before calibration\<close>
  | ShapeMismatch         \<comment> \<open>the height estimator, given a frame of another resolution\<close>
  | ExternalError string  \<comment> \<open>anything a collaborator (segmenter, estimator, OpenCV) raises\<close>

text \<open>The two assertion failures of \<^verbatim>\<open>get_layer\<close> under the names the specification gives
  them.\<close>

abbreviation UnknownLayer :: error where
  "UnknownLayer \<equiv> AssertionError LayerNameChoice"

abbreviation NoTransformConfigured :: error where
  "NoTransformConfigured \<equiv> AssertionError BEVMatrixStored"

subsection \<open>Broadcasting element-wise operations\<close>

text \<open>numpy's rule for one axis: equal lengths agree, and an axis of length one is
  stretched to the other length; anything else is a \<open>ValueError\<close>.\<close>

definition bdim :: "nat \<Rightarrow> nat \<Rightarrow> nat option" where
  "bdim m n = (if m = n then Some m else if m = 1 then Some n
               else if n = 1 then Some m else None)"

definition belem :: "'a array2 \<Rightarrow> nat \<Rightarrow> nat \<Rightarrow> 'a" where
  "belem a i j = elem a (if nrows a = 1 then 0 else i) (if ncols a = 1 then 0 else j)"

definition ufunc2 :: "('a \<Rightarrow> 'b \<Rightarrow> 'c) \<Rightarrow> 'a array2 \<Rightarrow> 'b array2 \<Rightarrow> error + 'c array2" where
  "ufunc2 f a b =
     (case bdim (nrows a) (nrows b) of
        None \<Rightarrow> Inl ValueError
      | Some r \<Rightarrow>
          (case bdim (ncols a) (ncols b) of
             None \<Rightarrow> Inl ValueError
           | Some c \<Rightarrow> Inr (tabulate r c (\<lambda>i j. f (belem a i j) (belem b i j)))))"

text \<open>\<^verbatim>\<open>a[m] = v\<close> with a boolean index array \<open>m\<close>: the index must have the shape of
  \<open>a\<close>, otherwise numpy raises \<open>IndexError\<close>.\<close>

definition setmask :: "'a array2 \<Rightarrow> bool array2 \<Rightarrow> 'a \<Rightarrow> error + 'a array2" where
  "setmask a m v =
     (if shape m = shape a
      then Inr (tabulate (nrows a) (ncols a) (\<lambda>i j. if elem m i j then v else elem a i j))
      else Inl IndexError)"

definition zeros_like :: "'a array2 \<Rightarrow> bool array2" where
  "zeros_like a = tabulate (nrows a) (ncols a) (\<lambda>i j. False)"

text \<open>The pixels a mask marks.\<close>

definition pixels :: "bool array2 \<Rightarrow> (nat \<times> nat) set" where
  "pixels m = {(i, j). i < nrows m \<and> j < ncols m \<and> elem m i j}"

section \<open>The scene interpreter\<close>

text \<open>
  \<^verbatim>\<open>SceneInterpreterV1\<close> of \<^verbatim>\<open>Surveillance/layers/scene.py\<close>. Depth and height values are
  floating-point numbers in the source; they are read here as the real numbers they denote
  (the comparisons with \<^verbatim>\<open>1e-3\<close> and \<^verbatim>\<open>0.5\<close> decide the same way on either reading,
  no double lying between a thousandth and its nearest double). A pixel of the colour
  image is its list of byte channels.
\<close>

type_synonym mask = "bool array2"
type_synonym pixel = "8 word list"
type_synonym image = "pixel array2"
type_synonym homography = "real array2"

text \<open>The fields \<^verbatim>\<open>__init__\<close> sets (lines 77 to 96). \<open>None\<close> is Python's \<^verbatim>\<open>None\<close>.
  \<open>human_seg_height\<close> and \<open>robot_seg_height\<close> stand for the height map last handed to the
  two segmenters by \<^verbatim>\<open>update_height_map\<close>.\<close>

record interp =
  BEV_trans_mat :: "homography option"
  human_seg_height :: "real array2 option"
  robot_seg_height :: "real array2 option"
  rgb_img :: "image option"
  depth :: "real array2 option"
  height_map :: "real array2 option"
  bg_mask :: "mask option"
  human_mask :: "mask option"
  robot_mask :: "mask option"
  puzzle_mask :: "mask option"

definition init :: "homography option \<Rightarrow> interp" where
  "init M = \<lparr>BEV_trans_mat = M, human_seg_height = None, robot_seg_height = None,
             rgb_img = None, depth = None, height_map = None,
             bg_mask = None, human_mask = None, robot_mask = None, puzzle_mask = None\<rparr>"

text \<open>
  The segmenters are collaborators whose code is outside the interpreter: each is the
  outcome of \<^verbatim>\<open>seg.process(img)\<close> followed by \<^verbatim>\<open>seg.get_mask()\<close>, an exception or the
  mask (\<^verbatim>\<open>Human_ColorSG.det_mask\<close> may return \<^verbatim>\<open>None\<close>). The puzzle segmenter is first
  told the three masks by \<^verbatim>\<open>set_detected_masks\<close>. The collaborators are taken to return
  arrays of their own and not to write into the arrays they are handed.
\<close>

record segmenters =
  human_seg :: "image \<Rightarrow> error + mask option"
  bg_seg :: "image \<Rightarrow> error + mask option"
  robot_seg :: "image \<Rightarrow> error + mask option"
  puzzle_seg :: "mask option list \<Rightarrow> image \<Rightarrow> error + mask option"

text \<open>A method that mutates the interpreter returns the exception it raised, if any, and
  the interpreter as the call left it: the assignments made before an exception stay.\<close>

type_synonym 's outcome = "error option \<times> 's"

definition seq :: "('s \<Rightarrow> 's outcome) \<Rightarrow> ('s \<Rightarrow> 's outcome) \<Rightarrow> 's \<Rightarrow> 's outcome" where
  "seq f g s = (case f s of (None, s') \<Rightarrow> g s' | (Some e, s') \<Rightarrow> (Some e, s'))"

text \<open>\<^verbatim>\<open>process_depth\<close>, lines 98 to 106; \<open>estimator\<close> is
  \<^verbatim>\<open>self.height_estimator.apply\<close>, and \<^verbatim>\<open>update_height_map\<close> is taken to keep the map
  it is given and not to raise.\<close>

definition process_depth ::
  "(real array2 \<Rightarrow> error + real array2) \<Rightarrow> real array2 \<Rightarrow> interp \<Rightarrow> interp outcome" where
  "process_depth estimator d s =
     (let s1 = s\<lparr>depth := Some d\<rparr> in
      case estimator d of
        Inl e \<Rightarrow> (Some e, s1)
      | Inr h \<Rightarrow>
          (let s2 = s1\<lparr>height_map := Some (amap abs h)\<rparr>;
               s3 = s2\<lparr>human_seg_height := height_map s2\<rparr>;
               s4 = s3\<lparr>robot_seg_height := height_map s3\<rparr>
           in (None, s4)))"

text \<open>\<^verbatim>\<open>nonROI\<close>, lines 150 to 168.\<close>

definition nonROI :: "interp \<Rightarrow> error + mask" where
  "nonROI s =
     (case (height_map s, depth s) of
        (Some h, Some d) \<Rightarrow>
          (case setmask (zeros_like d) (amap (\<lambda>x. \<bar>x\<bar> < 1 / 1000) d) True of
             Inl e \<Rightarrow> Inl e
           | Inr m \<Rightarrow> setmask m (amap (\<lambda>x. x > 1 / 2) h) True)
      | _ \<Rightarrow> Inl (AssertionError DepthProcessed))"

text \<open>The operators of lines 126, 127, 131 and 132 on fields that may hold \<^verbatim>\<open>None\<close>:
  \<^verbatim>\<open>None | mask\<close> and \<^verbatim>\<open>~None\<close> are a \<open>TypeError\<close> (for \<^verbatim>\<open>|\<close>, on a frame that has
  a pixel).\<close>

definition py_or :: "mask option \<Rightarrow> mask \<Rightarrow> error + mask" where
  "py_or a b = (case a of None \<Rightarrow> Inl TypeError | Some x \<Rightarrow> ufunc2 (\<or>) x b)"

definition py_invert :: "mask option \<Rightarrow> error + mask" where
  "py_invert a = (case a of None \<Rightarrow> Inl TypeError | Some x \<Rightarrow> Inr (amap Not x))"

definition py_and :: "mask \<Rightarrow> mask \<Rightarrow> error + mask" where
  "py_and a b = ufunc2 (\<and>) a b"

text \<open>\<^verbatim>\<open>a[idx] = False\<close>: \<^verbatim>\<open>None\<close> has no item assignment; an index \<^verbatim>\<open>None\<close> is
  numpy's new axis and selects the whole array.\<close>

definition clear_where :: "mask option \<Rightarrow> mask option \<Rightarrow> error + mask" where
  "clear_where a idx =
     (case a of
        None \<Rightarrow> Inl TypeError
      | Some x \<Rightarrow>
          (case idx of
             None \<Rightarrow> Inr (tabulate (nrows x) (ncols x) (\<lambda>i j. False))
           | Some m \<Rightarrow> setmask x m False))"

text \<open>Lines 131 and 132 on their own: the robot mask loses the pixels of \<open>first\<close>, then
  those of \<open>second\<close>.\<close>

definition demote :: "mask \<Rightarrow> mask \<Rightarrow> mask \<Rightarrow> error + mask" where
  "demote robot first second =
     (case clear_where (Some robot) (Some first) of
        Inl e \<Rightarrow> Inl e
      | Inr r1 \<Rightarrow> clear_where (Some r1) (Some second))"

text \<open>\<^verbatim>\<open>process\<close>, lines 108 to 136, one definition per commented block.\<close>

definition human_step :: "segmenters \<Rightarrow> image \<Rightarrow> interp \<Rightarrow> interp outcome" where
  "human_step segs img s =
     (case human_seg segs img of
        Inl e \<Rightarrow> (Some e, s)
      | Inr m \<Rightarrow> (None, s\<lparr>human_mask := m\<rparr>))"

definition bg_step :: "segmenters \<Rightarrow> image \<Rightarrow> mask \<Rightarrow> interp \<Rightarrow> interp outcome" where
  "bg_step segs img nonROI_mask s =
     (case bg_seg segs img of
        Inl e \<Rightarrow> (Some e, s)
      | Inr m \<Rightarrow>
          (let s1 = s\<lparr>bg_mask := m\<rparr> in
           case py_or (bg_mask s1) nonROI_mask of
             Inl e \<Rightarrow> (Some e, s1)
           | Inr m1 \<Rightarrow>
               (let s2 = s1\<lparr>bg_mask := Some m1\<rparr> in
                case py_invert (human_mask s2) of
                  Inl e \<Rightarrow> (Some e, s2)
                | Inr nh \<Rightarrow>
                    (case py_and m1 nh of
                       Inl e \<Rightarrow> (Some e, s2)
                     | Inr m2 \<Rightarrow> (None, s2\<lparr>bg_mask := Some m2\<rparr>)))))"

definition robot_step :: "segmenters \<Rightarrow> image \<Rightarrow> interp \<Rightarrow> interp outcome" where
  "robot_step segs img s =
     (case robot_seg segs img of
        Inl e \<Rightarrow> (Some e, s)
      | Inr m \<Rightarrow>
          (let s1 = s\<lparr>robot_mask := m\<rparr> in
           case clear_where (robot_mask s1) (human_mask s1) of
             Inl e \<Rightarrow> (Some e, s1)
           | Inr r1 \<Rightarrow>
               (let s2 = s1\<lparr>robot_mask := Some r1\<rparr> in
                case clear_where (robot_mask s2) (bg_mask s2) of
                  Inl e \<Rightarrow> (Some e, s2)
                | Inr r2 \<Rightarrow> (None, s2\<lparr>robot_mask := Some r2\<rparr>))))"

definition puzzle_step :: "segmenters \<Rightarrow> image \<Rightarrow> interp \<Rightarrow> interp outcome" where
  "puzzle_step segs img s =
     (case puzzle_seg segs [bg_mask s, human_mask s, robot_mask s] img of
        Inl e \<Rightarrow> (Some e, s)
      | Inr m \<Rightarrow> (None, s\<lparr>puzzle_mask := m\<rparr>))"

definition process :: "segmenters \<Rightarrow> image \<Rightarrow> interp \<Rightarrow> interp outcome" where
  "process segs img s =
     (let s1 = s\<lparr>rgb_img := Some img\<rparr> in
      case nonROI s1 of
        Inl e \<Rightarrow> (Some e, s1)
      | Inr nonROI_mask \<Rightarrow>
          seq (human_step segs img)
            (seq (bg_step segs img nonROI_mask)
              (seq (robot_step segs img) (puzzle_step segs img))) s1)"

subsection \<open>Layer queries\<close>

text \<open>
  \<^verbatim>\<open>cv2.warpPerspective(src, M, dsize)\<close> belongs to OpenCV. What is used of it is its
  documented result size: the destination has \<^verbatim>\<open>dsize = (width, height)\<close>, that is
  \<open>height\<close> rows and \<open>width\<close> columns, of the type of the source. Whether it fails and the
  value it samples at each destination pixel are left to the parameter \<open>sample\<close>.
\<close>

definition warpPerspective ::
  "('a array2 \<Rightarrow> homography \<Rightarrow> nat \<times> nat \<Rightarrow> error + (nat \<Rightarrow> nat \<Rightarrow> 'a)) \<Rightarrow>
   'a array2 \<Rightarrow> homography \<Rightarrow> nat \<times> nat \<Rightarrow> error + 'a array2" where
  "warpPerspective sample src M dsize =
     (case sample src M dsize of
        Inl e \<Rightarrow> Inl e
      | Inr f \<Rightarrow> Inr (tabulate (snd dsize) (fst dsize) f))"

record cv2 =
  sample_u8 :: "8 word array2 \<Rightarrow> homography \<Rightarrow> nat \<times> nat \<Rightarrow> error + (nat \<Rightarrow> nat \<Rightarrow> 8 word)"
  sample_px :: "image \<Rightarrow> homography \<Rightarrow> nat \<times> nat \<Rightarrow> error + (nat \<Rightarrow> nat \<Rightarrow> pixel)"

text \<open>The values the local variable \<^verbatim>\<open>layer\<close> of \<^verbatim>\<open>get_layer\<close> takes.\<close>

datatype layer = NoneLayer | BoolLayer mask | ByteLayer "8 word array2" | ImageLayer image

definition layer_shape :: "layer \<Rightarrow> (nat \<times> nat) option" where
  "layer_shape l =
     (case l of
        NoneLayer \<Rightarrow> None
      | BoolLayer m \<Rightarrow> Some (shape m)
      | ByteLayer m \<Rightarrow> Some (shape m)
      | ImageLayer m \<Rightarrow> Some (shape m))"

text \<open>\<^verbatim>\<open>eval("self." + layer_name + "_mask")\<close> for the four admitted names.\<close>

definition layer_mask :: "interp \<Rightarrow> string \<Rightarrow> mask option" where
  "layer_mask s layer_name =
     (if layer_name = ''bg'' then bg_mask s
      else if layer_name = ''human'' then human_mask s
      else if layer_name = ''robot'' then robot_mask s
      else puzzle_mask s)"

text \<open>\<^verbatim>\<open>mask[:, :, np.newaxis].astype(np.uint8) * self.rgb_img\<close>, line 189: every channel
  of a pixel is multiplied by the byte 0 or 1 of the mask, the two leading axes
  broadcasting.\<close>

definition colour_layer :: "mask option \<Rightarrow> image option \<Rightarrow> error + image" where
  "colour_layer msk img =
     (case msk of
        None \<Rightarrow> Inl TypeError
      | Some m \<Rightarrow>
          (case img of
             None \<Rightarrow> Inl TypeError
           | Some rgb \<Rightarrow> ufunc2 (\<lambda>b px. map (\<lambda>c. (of_bool b :: 8 word) * c) px) m rgb))"

definition astype_uint8 :: "layer \<Rightarrow> error + layer" where
  "astype_uint8 l =
     (case l of
        NoneLayer \<Rightarrow> Inl (AttributeError ''astype'')
      | BoolLayer m \<Rightarrow> Inr (ByteLayer (amap of_bool m))
      | ByteLayer m \<Rightarrow> Inr (ByteLayer m)
      | ImageLayer m \<Rightarrow> Inr (ImageLayer m))"

definition astype_bool :: "layer \<Rightarrow> error + layer" where
  "astype_bool l =
     (case l of
        NoneLayer \<Rightarrow> Inl (AttributeError ''astype'')
      | BoolLayer m \<Rightarrow> Inr (BoolLayer m)
      | ByteLayer m \<Rightarrow> Inr (BoolLayer (amap (\<lambda>v. v \<noteq> 0) m))
      | ImageLayer m \<Rightarrow> Inr (ImageLayer m))"

definition warp_layer :: "cv2 \<Rightarrow> layer \<Rightarrow> homography \<Rightarrow> nat \<times> nat \<Rightarrow> error + layer" where
  "warp_layer cv l M dsize =
     (case l of
        ByteLayer m \<Rightarrow>
          (case warpPerspective (sample_u8 cv) m M dsize of
             Inl e \<Rightarrow> Inl e | Inr w \<Rightarrow> Inr (ByteLayer w))
      | ImageLayer m \<Rightarrow>
          (case warpPerspective (sample_px cv) m M dsize of
             Inl e \<Rightarrow> Inl e | Inr w \<Rightarrow> Inr (ImageLayer w))
      | _ \<Rightarrow> Inl TypeError)"

text \<open>\<^verbatim>\<open>get_layer\<close>, lines 171 to 203, in three stages as the source has them: the layer
  is formed, rectified if asked, and cast back to booleans if only the mask is asked.\<close>

definition form_layer :: "interp \<Rightarrow> string \<Rightarrow> bool \<Rightarrow> error + layer" where
  "form_layer s layer_name mask_only =
     (let msk = layer_mask s layer_name in
      if mask_only
      then Inr (case msk of None \<Rightarrow> NoneLayer | Some m \<Rightarrow> BoolLayer m)
      else (case colour_layer msk (rgb_img s) of
              Inl e \<Rightarrow> Inl e | Inr l \<Rightarrow> Inr (ImageLayer l)))"

definition rectify_layer :: "cv2 \<Rightarrow> interp \<Rightarrow> layer \<Rightarrow> error + layer" where
  "rectify_layer cv s l =
     (case BEV_trans_mat s of
        None \<Rightarrow> Inl (AssertionError BEVMatrixStored)
      | Some M \<Rightarrow>
          (case astype_uint8 l of
             Inl e \<Rightarrow> Inl e
           | Inr src \<Rightarrow>
               (case layer_shape l of
                  None \<Rightarrow> Inl (AttributeError ''shape'')
                | Some sh \<Rightarrow> warp_layer cv src M (snd sh, fst sh))))"

definition get_layer :: "cv2 \<Rightarrow> interp \<Rightarrow> string \<Rightarrow> bool \<Rightarrow> bool \<Rightarrow> error + layer" where
  "get_layer cv s layer_name mask_only BEV_rectify =
     (if layer_name \<notin> set [''bg'', ''human'', ''robot'', ''puzzle'']
      then Inl (AssertionError LayerNameChoice)
      else
        (case form_layer s layer_name mask_only of
           Inl e \<Rightarrow> Inl e
         | Inr l0 \<Rightarrow>
             (case (if BEV_rectify then rectify_layer cv s l0 else Inr l0) of
                Inl e \<Rightarrow> Inl e
              | Inr l1 \<Rightarrow> (if mask_only then astype_bool l1 else Inr l1))))"

subsection \<open>The height estimator\<close>

text \<open>Modelled from the spec: the state of the height estimator
  (\<^verbatim>\<open>Surveillance/utils/height_estimate.py\<close> is not among the sources), which is the
  calibrated reference depth frame, absent before calibration.\<close>

record height_estimator =
  reference :: "real array2 option"

text \<open>Modelled from the spec: \<^verbatim>\<open>HeightEstimator.calibrate\<close>, a one-shot operation that
  stores the reference frame.\<close>

definition HeightEstimator_calibrate :: "real array2 \<Rightarrow> height_estimator" where
  "HeightEstimator_calibrate ref = \<lparr>reference = Some ref\<rparr>"

text \<open>Modelled from the spec: \<^verbatim>\<open>HeightEstimator.apply\<close>. It fails with \<open>NotCalibrated\<close>
  before calibration and with \<open>ShapeMismatch\<close> on a frame of another resolution, and
  otherwise gives, pixel by pixel, the difference between the reference reading and the
  current reading, whose magnitude \<^verbatim>\<open>process_depth\<close> takes.\<close>

definition HeightEstimator_apply :: "height_estimator \<Rightarrow> real array2 \<Rightarrow> error + real array2" where
  "HeightEstimator_apply he d =
     (case reference he of
        None \<Rightarrow> Inl NotCalibrated
      | Some ref \<Rightarrow>
          (if shape ref \<noteq> shape d then Inl ShapeMismatch
           else Inr (tabulate (nrows d) (ncols d) (\<lambda>i j. elem ref i j - elem d i j))))"

section \<open>The human state estimator\<close>

text \<open>
  \<^verbatim>\<open>Base\<close> and \<^verbatim>\<open>StateEstimator\<close> of \<^verbatim>\<open>Surveillance/activities/state.py\<close>. An instance is
  its attribute dictionary. Reading an attribute looks in that dictionary and then among
  the names the class and its bases define (here only methods; \<^verbatim>\<open>object\<close> adds nothing
  called \<^verbatim>\<open>state_names\<close> or \<^verbatim>\<open>signal_names\<close>); a name found in neither raises
  \<open>AttributeError\<close>.
\<close>

datatype pyval =
    PyNone
  | PyInt int
  | PyStr string
  | PyList "pyval list"
  | PyArray "real array2"
  | PyMethod string

type_synonym pyobject = "string \<rightharpoonup> pyval"

definition Base_names :: "string list" where
  "Base_names = [''__init__'', ''measure'', ''parse'', ''update'', ''visualize_rt'',
                 ''_append_with_number_limit'']"

definition StateEstimator_names :: "string list" where
  "StateEstimator_names = [''__init__'', ''parse''] @ Base_names"

definition getattr :: "string list \<Rightarrow> pyobject \<Rightarrow> string \<Rightarrow> error + pyval" where
  "getattr cls self name =
     (case self name of
        Some v \<Rightarrow> Inr v
      | None \<Rightarrow> (if name \<in> set cls then Inr (PyMethod name) else Inl (AttributeError name)))"

text \<open>\<^verbatim>\<open>np.empty((n, m))\<close>: \<open>n\<close> rows and \<open>m\<close> columns of whatever the memory held, here
  \<open>junk\<close>; a negative dimension is a \<open>ValueError\<close>, a dimension that is no integer a
  \<open>TypeError\<close>.\<close>

definition np_empty :: "(nat \<Rightarrow> nat \<Rightarrow> 'a) \<Rightarrow> pyval \<Rightarrow> pyval \<Rightarrow> error + 'a array2" where
  "np_empty junk n m =
     (case (n, m) of
        (PyInt r, PyInt c) \<Rightarrow>
          (if r < 0 \<or> c < 0 then Inl ValueError else Inr (tabulate (nat r) (nat c) junk))
      | _ \<Rightarrow> Inl TypeError)"

text \<open>\<^verbatim>\<open>Base.__init__\<close>, lines 27 to 44, for an instance of a class defining the names
  \<open>cls\<close>. The result is the instance, or the exception that ended the call.\<close>

definition Base_init ::
  "string list \<Rightarrow> (nat \<Rightarrow> nat \<Rightarrow> real) \<Rightarrow>
   pyval \<Rightarrow> pyval \<Rightarrow> pyval \<Rightarrow> pyval \<Rightarrow> pyval \<Rightarrow> pyval \<Rightarrow> error + pyobject" where
  "Base_init cls junk signal_number state_number signal_cache_limit state_cache_limit
     signal_names state_names =
     (let self0 = [''signal_number'' \<mapsto> signal_number,
                   ''state_number'' \<mapsto> state_number,
                   ''signal_cache_limit'' \<mapsto> signal_cache_limit,
                   ''state_cache_limit'' \<mapsto> state_cache_limit,
                   ''signal_cache_count'' \<mapsto> PyInt 0,
                   ''state_cache_count'' \<mapsto> PyInt 0]
      in case getattr cls self0 ''state_names'' of
           Inl e \<Rightarrow> Inl e
         | Inr v1 \<Rightarrow>
             (let self1 = self0(''state_names'' \<mapsto> v1) in
              case getattr cls self1 ''signal_names'' of
                Inl e \<Rightarrow> Inl e
              | Inr v2 \<Rightarrow>
                  (let self2 = self1(''signal_names'' \<mapsto> v2) in
                   case np_empty junk signal_number signal_cache_limit of
                     Inl e \<Rightarrow> Inl e
                   | Inr signals \<Rightarrow>
                       (let self3 = self2(''signals_cache'' \<mapsto> PyArray signals) in
                        case np_empty junk state_number state_cache_limit of
                          Inl e \<Rightarrow> Inl e
                        | Inr states \<Rightarrow>
                            Inr (self3(''states_cache'' \<mapsto> PyArray states,
                                       ''f_idx'' \<mapsto> PyNone))))))"

text \<open>\<^verbatim>\<open>StateEstimator.__init__\<close>, lines 124 to 126: the base initialiser with three
  states, \<^verbatim>\<open>state_cache_limit\<close> passed for both limits, as the source has it.\<close>

definition StateEstimator_init ::
  "(nat \<Rightarrow> nat \<Rightarrow> real) \<Rightarrow> pyval \<Rightarrow> pyval \<Rightarrow> pyval \<Rightarrow> pyval \<Rightarrow> error + pyobject" where
  "StateEstimator_init junk signal_number signal_cache_limit state_cache_limit signal_names =
     Base_init StateEstimator_names junk signal_number (PyInt 3)
       state_cache_limit state_cache_limit signal_names
       (PyList [PyStr ''Move'', PyStr ''Progress_Made'', PyStr ''Puzzle_in_Hand''])"

subsection \<open>Appending to a cache\<close>

text \<open>An integer index on an axis of \<open>n\<close> entries counts from the end when negative and
  raises \<open>IndexError\<close> out of range; a slice bound is clipped to the axis instead.\<close>

definition py_index :: "nat \<Rightarrow> int \<Rightarrow> error + nat" where
  "py_index n k =
     (let k' = (if k < 0 then k + int n else k)
      in if 0 \<le> k' \<and> k' < int n then Inr (nat k') else Inl IndexError)"

definition slice_bound :: "nat \<Rightarrow> int \<Rightarrow> nat" where
  "slice_bound n k = (if k < 0 then nat (max 0 (k + int n)) else min n (nat k))"

text \<open>\<^verbatim>\<open>cache[k, :] = new\<close>: the row is replaced by \<open>new\<close> when the lengths agree, filled
  with its single entry when \<open>new\<close> has one, and a \<open>ValueError\<close> otherwise.\<close>

definition set_row :: "'a array2 \<Rightarrow> int \<Rightarrow> 'a list \<Rightarrow> error + 'a array2" where
  "set_row a k new =
     (case py_index (nrows a) k of
        Inl e \<Rightarrow> Inl e
      | Inr i \<Rightarrow>
          (if length new = ncols a then Inr (Array2 (ncols a) ((rows a)[i := new]))
           else if length new = 1
           then Inr (Array2 (ncols a) ((rows a)[i := replicate (ncols a) (hd new)]))
           else Inl ValueError))"

text \<open>\<^verbatim>\<open>cache[lo:hi, :]\<close> read, and assigned rows that were read beforehand (numpy copies
  the right-hand side when it overlaps the target).\<close>

definition slice_rows :: "'a array2 \<Rightarrow> int \<Rightarrow> int \<Rightarrow> 'a list list" where
  "slice_rows a lo hi =
     (let l = slice_bound (nrows a) lo; h = slice_bound (nrows a) hi
      in take (h - l) (drop l (rows a)))"

definition set_slice_rows :: "'a array2 \<Rightarrow> int \<Rightarrow> int \<Rightarrow> 'a list list \<Rightarrow> error + 'a array2" where
  "set_slice_rows a lo hi src =
     (let l = slice_bound (nrows a) lo; h = slice_bound (nrows a) hi; b = h - l
      in if length src = b
         then Inr (Array2 (ncols a) (take l (rows a) @ src @ drop (l + b) (rows a)))
         else if length src = 1
         then Inr (Array2 (ncols a) (take l (rows a) @ replicate b (hd src) @ drop (l + b) (rows a)))
         else Inl ValueError)"

text \<open>\<^verbatim>\<open>_append_with_number_limit\<close>, lines 106 to 114. The array is changed in place in
  the source; the changed array is the result here.\<close>

definition append_with_number_limit ::
  "'a array2 \<Rightarrow> 'a list \<Rightarrow> int \<Rightarrow> int \<Rightarrow> error + 'a array2" where
  "append_with_number_limit cache new num_limit cur_count =
     (if cur_count < num_limit then set_row cache cur_count new
      else
        (case set_slice_rows cache 0 (num_limit - 1) (slice_rows cache 1 num_limit) of
           Inl e \<Rightarrow> Inl e
         | Inr shifted \<Rightarrow> set_row shifted (num_limit - 1) new))"

text \<open>The calls \<^verbatim>\<open>measure\<close> makes for one cache over a run of items (lines 59 to 62 and
  74): the count handed over is the count before the append and grows by one each time.\<close>

fun append_all :: "'a array2 \<Rightarrow> int \<Rightarrow> int \<Rightarrow> 'a list list \<Rightarrow> error + 'a array2 \<times> int" where
  "append_all cache num_limit cur_count [] = Inr (cache, cur_count)"
| "append_all cache num_limit cur_count (new # rest) =
     (case append_with_number_limit cache new num_limit cur_count of
        Inl e \<Rightarrow> Inl e
      | Inr cache' \<Rightarrow> append_all cache' num_limit (cur_count + 1) rest)"

text \<open>The logical length of a cache and its contents in chronological order.\<close>

definition logical_length :: "int \<Rightarrow> int \<Rightarrow> nat" where
  "logical_length num_limit cur_count = nat (min cur_count num_limit)"

definition snapshot :: "'a array2 \<Rightarrow> int \<Rightarrow> int \<Rightarrow> 'a list list" where
  "snapshot cache num_limit cur_count = take (logical_length num_limit cur_count) (rows cache)"

section \<open>A worked frame\<close>

text \<open>A two by two frame used to run the definitions: the depth reading of the last pixel
  is missing, the human segmenter claims the first pixel, the background segmenter the
  first row and the robot segmenter all but the last pixel.\<close>

definition example_depth :: "real array2" where
  "example_depth = Array2 2 [[2, 2], [2, 0]]"

text \<open>A calibrated reference frame and a current frame for the height estimator.\<close>

definition example_reference :: "real array2" where
  "example_reference = Array2 2 [[2, 2], [2, 2]]"

definition example_current :: "real array2" where
  "example_current = Array2 2 [[23 / 10, 23 / 10], [23 / 10, 23 / 10]]"

definition example_estimator :: "real array2 \<Rightarrow> error + real array2" where
  "example_estimator d = Inr (Array2 2 [[0, 0], [0, - 2]])"

definition example_state :: interp where
  "example_state = snd (process_depth example_estimator example_depth (init None))"

definition example_img :: image where
  "example_img = Array2 2 [[[1, 2, 3], [4, 5, 6]], [[7, 8, 9], [10, 11, 12]]]"

text \<open>The masks of the worked frame: raw and composed, and those of the frame after it.\<close>

definition example_human :: mask where
  "example_human = Array2 2 [[True, False], [False, False]]"

definition example_bg_raw :: mask where
  "example_bg_raw = Array2 2 [[True, True], [False, False]]"

definition example_robot_raw :: mask where
  "example_robot_raw = Array2 2 [[True, True], [True, False]]"

definition example_nonROI :: mask where
  "example_nonROI = Array2 2 [[False, False], [False, True]]"

definition example_bg :: mask where
  "example_bg = Array2 2 [[False, True], [False, True]]"

definition example_robot :: mask where
  "example_robot = Array2 2 [[False, False], [True, False]]"

definition example_puzzle :: mask where
  "example_puzzle = Array2 2 [[False, False], [False, False]]"

definition example_human2 :: mask where
  "example_human2 = Array2 2 [[False, True], [False, False]]"

definition example_bg_raw2 :: mask where
  "example_bg_raw2 = Array2 2 [[True, False], [True, False]]"

definition example_bg2 :: mask where
  "example_bg2 = Array2 2 [[True, False], [True, True]]"

definition example_segs :: segmenters where
  "example_segs =
     \<lparr>human_seg = (\<lambda>img. Inr (Some example_human)),
      bg_seg = (\<lambda>img. Inr (Some example_bg_raw)),
      robot_seg = (\<lambda>img. Inr (Some example_robot_raw)),
      puzzle_seg = (\<lambda>ms img. Inr (Some example_puzzle))\<rparr>"

text \<open>An OpenCV that samples the source pixel of the same position (the identity
  homography) and never fails.\<close>

definition example_cv :: cv2 where
  "example_cv = \<lparr>sample_u8 = (\<lambda>src M dsize. Inr (elem src)),
                  sample_px = (\<lambda>src M dsize. Inr (elem src))\<rparr>"

definition example_homography :: homography where
  "example_homography = Array2 3 [[1, 0, 0], [0, 1, 0], [0, 0, 1]]"

definition example_next :: interp where
  "example_next = snd (process example_segs example_img example_state)"

text \<open>The next frame, on which the robot segmenter raises.\<close>

definition example_failing_segs :: segmenters where
  "example_failing_segs =
     \<lparr>human_seg = (\<lambda>img. Inr (Some example_human2)),
      bg_seg = (\<lambda>img. Inr (Some example_bg_raw2)),
      robot_seg = (\<lambda>img. Inl (ExternalError ''robot_seg.process'')),
      puzzle_seg = (\<lambda>ms img. Inr (Some example_puzzle))\<rparr>"

text \<open>A cache of three rows of two entries, and five items to append to it.\<close>

definition example_cache :: "real array2" where
  "example_cache = Array2 2 [[0, 0], [0, 0], [0, 0]]"

definition example_items :: "real list list" where
  "example_items = [[1, 10], [2, 20], [3, 30], [4, 40], [5, 50]]"

section \<open>Facts about arrays\<close>

lemma nrows_tabulate [simp]: "nrows (tabulate r c f) = r"
  by (simp add: nrows_def tabulate_def)

lemma ncols_tabulate [simp]: "ncols (tabulate r c f) = c"
  by (simp add: tabulate_def)

lemma shape_tabulate [simp]: "shape (tabulate r c f) = (r, c)"
  by (simp add: shape_def)

lemma wf_tabulate [simp]: "wf_array (tabulate r c f)"
  by (simp add: wf_array_def tabulate_def list_all_iff)

lemma elem_tabulate [simp]: "i < r \<Longrightarrow> j < c \<Longrightarrow> elem (tabulate r c f) i j = f i j"
  by (simp add: elem_def tabulate_def)

lemma elem_row: "elem a i = (\<lambda>j. rows a ! i ! j)"
  by (rule ext) (simp add: elem_def)

lemma tabulate_cong:
  "(\<And>i j. i < r \<Longrightarrow> j < c \<Longrightarrow> f i j = g i j) \<Longrightarrow> tabulate r c f = tabulate r c g"
  by (simp add: tabulate_def)

lemma tabulate_elem:
  assumes "wf_array a"
  shows "tabulate (nrows a) (ncols a) (elem a) = a"
proof -
  have "map (\<lambda>i. map (\<lambda>j. rows a ! i ! j) [0..<ncols a]) [0..<length (rows a)] = rows a"
  proof (rule nth_equalityI)
    show "length (map (\<lambda>i. map (\<lambda>j. rows a ! i ! j) [0..<ncols a]) [0..<length (rows a)])
          = length (rows a)"
      by simp
  next
    fix i
    assume "i < length (map (\<lambda>i. map (\<lambda>j. rows a ! i ! j) [0..<ncols a]) [0..<length (rows a)])"
    then have i: "i < length (rows a)" by simp
    with assms have len: "length (rows a ! i) = ncols a"
      by (simp add: wf_array_def list_all_length)
    have "map (\<lambda>j. rows a ! i ! j) [0..<ncols a] = rows a ! i"
      using len by (metis map_nth)
    with i show "map (\<lambda>i. map (\<lambda>j. rows a ! i ! j) [0..<ncols a]) [0..<length (rows a)] ! i
                 = rows a ! i"
      by simp
  qed
  then show ?thesis
    by (cases a) (simp add: tabulate_def elem_row nrows_def)
qed

lemma bdim_same [simp]: "bdim n n = Some n"
  by (simp add: bdim_def)

lemma pixels_tabulate: "pixels (tabulate r c f) = {(i, j). i < r \<and> j < c \<and> f i j}"
  by (auto simp: pixels_def)

lemma nrows_amap [simp]: "nrows (amap f a) = nrows a" by (simp add: amap_def)
lemma ncols_amap [simp]: "ncols (amap f a) = ncols a" by (simp add: amap_def)
lemma shape_amap [simp]: "shape (amap f a) = shape a" by (simp add: shape_def)
lemma elem_amap [simp]: "i < nrows a \<Longrightarrow> j < ncols a \<Longrightarrow> elem (amap f a) i j = f (elem a i j)"
  by (simp add: amap_def)
lemma belem_inrange: "i < nrows a \<Longrightarrow> j < ncols a \<Longrightarrow> belem a i j = elem a i j"
  by (auto simp: belem_def)

lemma ufunc2_same_shape:
  "shape a = shape b \<Longrightarrow> ufunc2 f a b = Inr (tabulate (nrows a) (ncols a) (\<lambda>i j. f (elem a i j) (elem b i j)))"
  by (auto simp: ufunc2_def shape_def belem_inrange intro!: tabulate_cong)

lemma ufunc2_Inr:
  "ufunc2 f a b = Inr c \<Longrightarrow>
     \<exists>r k. bdim (nrows a) (nrows b) = Some r \<and> bdim (ncols a) (ncols b) = Some k \<and>
        c = tabulate r k (\<lambda>i j. f (belem a i j) (belem b i j))"
  by (auto simp: ufunc2_def split: option.splits)

section \<open>Facts about the composition of a frame\<close>

lemma demote_same_shape:
  assumes "shape a = shape r" "shape b = shape r"
  shows "demote r a b = Inr (tabulate (nrows r) (ncols r) (\<lambda>i j. elem r i j \<and> \<not> elem a i j \<and> \<not> elem b i j))"
  using assms
  by (auto simp: demote_def clear_where_def setmask_def shape_def intro!: tabulate_cong)

lemma demote_error:
  "shape a \<noteq> shape r \<or> shape b \<noteq> shape r \<Longrightarrow> demote r a b = Inl IndexError"
  by (auto simp: demote_def clear_where_def setmask_def shape_def)

lemma demote_Inr:
  "demote r a b = Inr x \<Longrightarrow> shape a = shape r \<and> shape b = shape r"
  by (auto simp: demote_def clear_where_def setmask_def shape_def split: if_splits sum.splits)

lemma human_step_None:
  "human_step segs img s = (None, s') \<Longrightarrow>
     \<exists>m. human_seg segs img = Inr m \<and> s' = s\<lparr>human_mask := m\<rparr>"
  by (auto simp: human_step_def split: sum.splits)

lemma bg_step_None:
  "bg_step segs img N s = (None, s') \<Longrightarrow>
     \<exists>B H m1 m2. bg_seg segs img = Inr (Some B) \<and> human_mask s = Some H \<and>
        ufunc2 (\<or>) B N = Inr m1 \<and> ufunc2 (\<and>) m1 (amap Not H) = Inr m2 \<and>
        s' = s\<lparr>bg_mask := Some m2\<rparr>"
  by (auto simp: bg_step_def py_or_def py_invert_def py_and_def Let_def
           split: sum.splits option.splits)

lemma robot_step_None:
  assumes "robot_step segs img s = (None, s')" "human_mask s = Some H" "bg_mask s = Some B"
  shows "\<exists>R r2. robot_seg segs img = Inr (Some R) \<and> demote R H B = Inr r2 \<and>
        s' = s\<lparr>robot_mask := Some r2\<rparr>"
proof -
  from assms obtain R r1 r2 where
    "robot_seg segs img = Inr (Some R)" "setmask R H False = Inr r1"
    "setmask r1 B False = Inr r2" "s' = s\<lparr>robot_mask := Some r2\<rparr>"
    by (auto simp: robot_step_def clear_where_def Let_def split: sum.splits option.splits)
  then show ?thesis
    by (simp add: demote_def clear_where_def)
qed

lemma puzzle_step_None:
  "puzzle_step segs img s = (None, s') \<Longrightarrow>
     \<exists>m. puzzle_seg segs [bg_mask s, human_mask s, robot_mask s] img = Inr m \<and>
         s' = s\<lparr>puzzle_mask := m\<rparr>"
  by (auto simp: puzzle_step_def split: sum.splits)

lemma seq_None:
  "seq f g s = (None, s') \<longleftrightarrow> (\<exists>s1. f s = (None, s1) \<and> g s1 = (None, s'))"
  by (auto simp: seq_def split: prod.splits option.splits)

lemma process_None:
  assumes "process segs img s = (None, s')"
  shows "\<exists>N H B R m1 F r2 pm.
           nonROI (s\<lparr>rgb_img := Some img\<rparr>) = Inr N \<and>
           human_seg segs img = Inr (Some H) \<and>
           bg_seg segs img = Inr (Some B) \<and>
           robot_seg segs img = Inr (Some R) \<and>
           ufunc2 (\<or>) B N = Inr m1 \<and> ufunc2 (\<and>) m1 (amap Not H) = Inr F \<and>
           demote R H F = Inr r2 \<and>
           puzzle_seg segs [Some F, Some H, Some r2] img = Inr pm \<and>
           s' = s\<lparr>rgb_img := Some img, human_mask := Some H, bg_mask := Some F,
                   robot_mask := Some r2, puzzle_mask := pm\<rparr>"
proof -
  let ?s1 = "s\<lparr>rgb_img := Some img\<rparr>"
  from assms obtain N where N: "nonROI ?s1 = Inr N"
    and run: "seq (human_step segs img)
            (seq (bg_step segs img N)
              (seq (robot_step segs img) (puzzle_step segs img))) ?s1 = (None, s')"
    by (auto simp: process_def Let_def split: sum.splits)
  from run obtain s2 s3 s4 where
    h: "human_step segs img ?s1 = (None, s2)" and
    b: "bg_step segs img N s2 = (None, s3)" and
    r: "robot_step segs img s3 = (None, s4)" and
    p: "puzzle_step segs img s4 = (None, s')"
    by (auto simp: seq_None)
  from h obtain hm where hm: "human_seg segs img = Inr hm" "s2 = ?s1\<lparr>human_mask := hm\<rparr>"
    by (auto dest: human_step_None)
  from b obtain B H m1 F where bf: "bg_seg segs img = Inr (Some B)" "human_mask s2 = Some H"
    "ufunc2 (\<or>) B N = Inr m1" "ufunc2 (\<and>) m1 (amap Not H) = Inr F" "s3 = s2\<lparr>bg_mask := Some F\<rparr>"
    by (auto dest: bg_step_None)
  from hm bf have H: "hm = Some H" by simp
  have "human_mask s3 = Some H" "bg_mask s3 = Some F" using bf by simp_all
  with r obtain R r2 where rf: "robot_seg segs img = Inr (Some R)" "demote R H F = Inr r2"
    "s4 = s3\<lparr>robot_mask := Some r2\<rparr>"
    by (auto dest: robot_step_None)
  from p obtain pm where pf: "puzzle_seg segs [bg_mask s4, human_mask s4, robot_mask s4] img = Inr pm"
     "s' = s4\<lparr>puzzle_mask := pm\<rparr>"
    by (auto dest: puzzle_step_None)
  have s'_eq: "s' = s\<lparr>rgb_img := Some img, human_mask := Some H, bg_mask := Some F,
                   robot_mask := Some r2, puzzle_mask := pm\<rparr>"
    using hm(2) bf(5) rf(3) pf(2) H by simp
  have pz: "puzzle_seg segs [Some F, Some H, Some r2] img = Inr pm"
    using pf(1) rf(3) bf(5) hm(2) H by simp
  have hs: "human_seg segs img = Inr (Some H)" using hm(1) H by simp
  from N hs bf(1) rf(1) bf(3) bf(4) rf(2) pz s'_eq show ?thesis by blast
qed


lemma and_not_disjoint:
  assumes "ufunc2 (\<and>) m (amap Not H) = Inr F" "shape F = shape H"
  shows "pixels H \<inter> pixels F = {}"
proof -
  from assms(1) obtain r k where F: "F = tabulate r k (\<lambda>i j. belem m i j \<and> belem (amap Not H) i j)"
    by (auto dest: ufunc2_Inr)
  with assms(2) have rk: "r = nrows H" "k = ncols H" by (simp_all add: shape_def)
  show ?thesis
    unfolding F rk by (auto simp: pixels_def belem_inrange)
qed

lemma demote_pixels:
  assumes "demote R H B = Inr r2"
  shows "shape H = shape R \<and> shape B = shape R \<and> shape r2 = shape R \<and>
         pixels r2 = pixels R - pixels H - pixels B"
proof -
  from assms have sh: "shape H = shape R" "shape B = shape R" by (auto dest: demote_Inr)
  with assms have r2: "r2 = tabulate (nrows R) (ncols R) (\<lambda>i j. elem R i j \<and> \<not> elem H i j \<and> \<not> elem B i j)"
    by (simp add: demote_same_shape)
  from sh have "nrows H = nrows R" "ncols H = ncols R" "nrows B = nrows R" "ncols B = ncols R"
    by (simp_all add: shape_def)
  then have "pixels r2 = pixels R - pixels H - pixels B"
    unfolding r2 by (auto simp: pixels_def)
  with sh r2 show ?thesis by (simp add: shape_def)
qed

lemma nonROI_rgb [simp]: "nonROI (s\<lparr>rgb_img := x\<rparr>) = nonROI s"
  by (simp add: nonROI_def)

lemma human_step_Some: "human_step segs img s = (Some e, s') \<Longrightarrow> s' = s \<and> human_seg segs img = Inl e"
  by (auto simp: human_step_def split: sum.splits)

lemma bg_step_frame:
  "bg_step segs img N s = (r, s') \<Longrightarrow>
     human_mask s' = human_mask s \<and> robot_mask s' = robot_mask s \<and> puzzle_mask s' = puzzle_mask s"
  by (auto simp: bg_step_def Let_def split: sum.splits)

lemma robot_step_frame:
  "robot_step segs img s = (r, s') \<Longrightarrow>
     human_mask s' = human_mask s \<and> bg_mask s' = bg_mask s \<and> puzzle_mask s' = puzzle_mask s"
  by (auto simp: robot_step_def Let_def split: sum.splits)

lemma puzzle_step_Some: "puzzle_step segs img s = (Some e, s') \<Longrightarrow> s' = s"
  by (auto simp: puzzle_step_def split: sum.splits)

lemma seq_Some:
  "seq f g s = (Some e, s') \<longleftrightarrow> f s = (Some e, s') \<or> (\<exists>s1. f s = (None, s1) \<and> g s1 = (Some e, s'))"
  by (auto simp: seq_def split: prod.splits option.splits)

text \<open>On a frame whose masks all have the shape of the non-ROI mask, \<^verbatim>\<open>process\<close> completes
  as soon as the segmenters do.\<close>

lemma process_completes:
  assumes "nonROI s = Inr N"
    and "human_seg segs img = Inr (Some H)"
    and "bg_seg segs img = Inr (Some B)"
    and "robot_seg segs img = Inr (Some R)"
    and "shape B = shape N" "shape H = shape N" "shape R = shape N"
    and "puzzle_seg segs
           [Some (tabulate (nrows N) (ncols N) (\<lambda>i j. (elem B i j \<or> elem N i j) \<and> \<not> elem H i j)),
            Some H,
            Some (tabulate (nrows N) (ncols N)
                    (\<lambda>i j. elem R i j \<and> \<not> elem H i j \<and> \<not> ((elem B i j \<or> elem N i j) \<and> \<not> elem H i j)))]
           img = Inr pm"
  shows "fst (process segs img s) = None"
proof -
  let ?F = "tabulate (nrows N) (ncols N) (\<lambda>i j. (elem B i j \<or> elem N i j) \<and> \<not> elem H i j)"
  let ?r = "tabulate (nrows N) (ncols N)
                    (\<lambda>i j. elem R i j \<and> \<not> elem H i j \<and> \<not> ((elem B i j \<or> elem N i j) \<and> \<not> elem H i j))"
  from assms(5-7) have dims: "nrows B = nrows N" "ncols B = ncols N" "nrows H = nrows N"
    "ncols H = ncols N" "nrows R = nrows N" "ncols R = ncols N"
    by (simp_all add: shape_def)
  have m1: "ufunc2 (\<or>) B N = Inr (tabulate (nrows N) (ncols N) (\<lambda>i j. elem B i j \<or> elem N i j))"
    using assms(5) by (simp add: ufunc2_same_shape dims)
  have F: "ufunc2 (\<and>) (tabulate (nrows N) (ncols N) (\<lambda>i j. elem B i j \<or> elem N i j)) (amap Not H) = Inr ?F"
    using assms(6) by (subst ufunc2_same_shape) (auto simp: shape_def dims intro!: tabulate_cong)
  have r: "demote R H ?F = Inr ?r"
    using assms(6,7) by (subst demote_same_shape) (auto simp: shape_def dims intro!: tabulate_cong)
  let ?s1 = "s\<lparr>rgb_img := Some img\<rparr>"
  let ?s2 = "?s1\<lparr>human_mask := Some H\<rparr>"
  let ?s3 = "?s2\<lparr>bg_mask := Some ?F\<rparr>"
  let ?s4 = "?s3\<lparr>robot_mask := Some ?r\<rparr>"
  have h: "human_step segs img ?s1 = (None, ?s2)"
    using assms(2) by (simp add: human_step_def)
  have b: "bg_step segs img N ?s2 = (None, ?s3)"
    using assms(3) m1 F by (simp add: bg_step_def py_or_def py_invert_def py_and_def)
  have ro: "robot_step segs img ?s3 = (None, ?s4)"
  proof -
    from r obtain r1 where "clear_where (Some R) (Some H) = Inr r1" "clear_where (Some r1) (Some ?F) = Inr ?r"
      by (auto simp: demote_def split: sum.splits)
    with assms(4) show ?thesis by (simp add: robot_step_def)
  qed
  have p: "puzzle_step segs img ?s4 = (None, ?s4\<lparr>puzzle_mask := pm\<rparr>)"
    using assms(8) by (simp add: puzzle_step_def)
  from assms(1) h b ro p show ?thesis
    by (simp add: process_def seq_def)
qed

section \<open>Facts about depth, layers and caches\<close>

lemma process_depth_Inr:
  "estimator d = Inr h \<Longrightarrow>
   process_depth estimator d s =
     (None, s\<lparr>depth := Some d, height_map := Some (amap abs h),
              human_seg_height := Some (amap abs h), robot_seg_height := Some (amap abs h)\<rparr>)"
  by (simp add: process_depth_def Let_def)

lemma nonROI_same_shape:
  assumes "depth s = Some d" "height_map s = Some hm" "shape hm = shape d"
  shows "nonROI s = Inr (tabulate (nrows d) (ncols d)
                           (\<lambda>i j. \<bar>elem d i j\<bar> < 1 / 1000 \<or> elem hm i j > 1 / 2))"
  using assms
  by (auto simp: nonROI_def setmask_def zeros_like_def shape_def intro!: tabulate_cong)

lemma form_layer_BEV [simp]: "form_layer (s\<lparr>BEV_trans_mat := M\<rparr>) n mo = form_layer s n mo"
  by (simp add: form_layer_def layer_mask_def Let_def)

lemma warp_layer_shape:
  "warp_layer cv l M (w, h) = Inr out \<Longrightarrow> layer_shape out = Some (h, w)"
  by (auto simp: warp_layer_def warpPerspective_def layer_shape_def split: layer.splits sum.splits)

lemma astype_bool_shape: "astype_bool l = Inr l' \<Longrightarrow> layer_shape l' = layer_shape l"
  by (auto simp: astype_bool_def layer_shape_def split: layer.splits)

lemma rectify_layer_shape:
  assumes "rectify_layer cv s l = Inr out"
  shows "layer_shape out = layer_shape l \<and> layer_shape l \<noteq> None"
proof -
  from assms obtain M src sh where
    "astype_uint8 l = Inr src" "layer_shape l = Some sh"
    "warp_layer cv src M (snd sh, fst sh) = Inr out"
    by (auto simp: rectify_layer_def split: option.splits sum.splits)
  then show ?thesis
    using warp_layer_shape [of cv src M "snd sh" "fst sh" out] by simp
qed

lemma append_below_limit:
  assumes "nrows cache = C" "k < C" "length new = ncols cache"
  shows "append_with_number_limit cache new (int C) (int k) =
           Inr (Array2 (ncols cache) ((rows cache)[k := new]))"
  using assms by (simp add: append_with_number_limit_def set_row_def py_index_def)

lemma append_at_limit:
  assumes "nrows cache = C" "0 < C" "C \<le> k" "length new = ncols cache"
  shows "append_with_number_limit cache new (int C) (int k) =
           Inr (Array2 (ncols cache) (tl (rows cache) @ [new]))"
proof -
  from assms have len: "length (rows cache) = C" by (simp add: nrows_def)
  have src: "slice_rows cache 1 (int C) = tl (rows cache)"
    using assms(2) len by (simp add: slice_rows_def slice_bound_def nrows_def drop_Suc)
  have hi: "slice_bound (nrows cache) (int C - 1) = C - 1"
    using assms(1,2) by (auto simp: slice_bound_def nat_diff_distrib')
  have lo: "slice_bound (nrows cache) 0 = 0"
    by (simp add: slice_bound_def)
  have shifted: "set_slice_rows cache 0 (int C - 1) (tl (rows cache)) =
      Inr (Array2 (ncols cache) (tl (rows cache) @ drop (C - 1) (rows cache)))"
    using len by (simp add: set_slice_rows_def hi lo Let_def)
  define x where "x = rows cache ! (C - 1)"
  have x: "drop (C - 1) (rows cache) = [x]"
    using Cons_nth_drop_Suc [of "C - 1" "rows cache"] len assms(2) by (simp add: x_def)
  have idx: "py_index C (int C - 1) = Inr (C - 1)"
    using assms(2) by (auto simp: py_index_def Let_def nat_diff_distrib')
  have n1: "nrows (Array2 (ncols cache) (tl (rows cache) @ [x])) = C"
    using len assms(2) by (simp add: nrows_def)
  have upd: "(tl (rows cache) @ [x])[C - 1 := new] = tl (rows cache) @ [new]"
    using len by (simp add: list_update_append)
  have "set_row (Array2 (ncols cache) (tl (rows cache) @ [x])) (int C - 1) new =
          Inr (Array2 (ncols cache) (tl (rows cache) @ [new]))"
    using assms(4) upd by (simp add: set_row_def n1 idx)
  with shifted x src assms(3) show ?thesis
    by (simp add: append_with_number_limit_def)
qed

lemma append_all_snapshot:
  assumes "nrows cache = C" "0 < C" "ncols cache = D" "\<forall>x \<in> set items. length x = D"
    and "length done = k"
    and "snapshot cache (int C) (int k) = drop (k - C) done"
  shows "\<exists>cache'. append_all cache (int C) (int k) items = Inr (cache', int (k + length items)) \<and>
           nrows cache' = C \<and> ncols cache' = D \<and>
           snapshot cache' (int C) (int (k + length items)) =
             drop (k + length items - C) (done @ items)"
  using assms
proof (induction items arbitrary: cache k "done")
  case Nil
  then show ?case by simp
next
  case (Cons new rest)
  from Cons.prems have new: "length new = ncols cache" by simp
  from Cons.prems have len: "length (rows cache) = C" by (simp add: nrows_def)
  show ?case
  proof (cases "k < C")
    case True
    let ?c = "Array2 (ncols cache) ((rows cache)[k := new])"
    have step: "append_with_number_limit cache new (int C) (int k) = Inr ?c"
      using Cons.prems(1) True new by (rule append_below_limit)
    from Cons.prems True have "take k (rows cache) = done"
      by (simp add: snapshot_def logical_length_def)
    moreover have "nat (min (int (Suc k)) (int C)) = Suc k"
      using True by simp
    ultimately have snap: "snapshot ?c (int C) (int (Suc k)) = drop (Suc k - C) (done @ [new])"
      using True len unfolding snapshot_def logical_length_def
      by (simp add: take_Suc_conv_app_nth)
    have "\<exists>cache'. append_all ?c (int C) (int (Suc k)) rest = Inr (cache', int (Suc k + length rest)) \<and>
           nrows cache' = C \<and> ncols cache' = D \<and>
           snapshot cache' (int C) (int (Suc k + length rest)) =
             drop (Suc k + length rest - C) ((done @ [new]) @ rest)"
      using Cons.prems len snap by (intro Cons.IH) (simp_all add: nrows_def)
    with step show ?thesis by (simp add: add.commute)
  next
    case False
    let ?c = "Array2 (ncols cache) (tl (rows cache) @ [new])"
    have step: "append_with_number_limit cache new (int C) (int k) = Inr ?c"
      using Cons.prems(1,2) False new by (intro append_at_limit) simp_all
    from Cons.prems False len have full: "rows cache = drop (k - C) done"
      by (simp add: snapshot_def logical_length_def)
    have eq: "tl (rows cache) @ [new] = drop (Suc k - C) (done @ [new])"
      using False Cons.prems(2,5) full by (simp add: drop_Suc tl_drop Suc_diff_le)
    have "snapshot ?c (int C) (int (Suc k)) = tl (rows cache) @ [new]"
      using False len Cons.prems(2) by (simp add: snapshot_def logical_length_def)
    with eq have snap: "snapshot ?c (int C) (int (Suc k)) = drop (Suc k - C) (done @ [new])"
      by (simp only:)
    have "\<exists>cache'. append_all ?c (int C) (int (Suc k)) rest = Inr (cache', int (Suc k + length rest)) \<and>
           nrows cache' = C \<and> ncols cache' = D \<and>
           snapshot cache' (int C) (int (Suc k + length rest)) =
             drop (Suc k + length rest - C) ((done @ [new]) @ rest)"
      using Cons.prems len snap by (intro Cons.IH) (simp_all add: nrows_def)
    with step show ?thesis by (simp add: add.commute)
  qed
qed

section \<open>Running the worked frame\<close>

lemma upt_2: "[0..<2] = [0, 1]"
  by (simp add: upt_rec)

lemmas eval_defs =
  process_def process_depth_def init_def nonROI_def setmask_def zeros_like_def amap_def
  shape_def nrows_def tabulate_def elem_def upt_2 Let_def seq_def human_step_def bg_step_def
  robot_step_def puzzle_step_def py_or_def py_and_def py_invert_def clear_where_def
  ufunc2_def bdim_def belem_def demote_def

lemmas example_mask_defs =
  example_human_def example_bg_raw_def example_robot_raw_def example_nonROI_def
  example_bg_def example_robot_def example_puzzle_def example_human2_def
  example_bg_raw2_def example_bg2_def

lemmas layer_defs =
  get_layer_def form_layer_def rectify_layer_def layer_mask_def colour_layer_def
  astype_uint8_def astype_bool_def warp_layer_def warpPerspective_def layer_shape_def

lemmas example_defs =
  example_depth_def example_estimator_def example_state_def example_img_def
  example_segs_def example_failing_segs_def example_mask_defs

lemma example_nonROI:
  "nonROI example_state = Inr example_nonROI"
  by (simp add: example_defs eval_defs)

lemma example_run:
  "process example_segs example_img example_state = (None, example_next)"
  "human_mask example_next = Some example_human"
  "bg_mask example_next = Some example_bg"
  "robot_mask example_next = Some example_robot"
  "puzzle_mask example_next = Some example_puzzle"
  by (simp_all add: example_next_def example_defs eval_defs)

lemma example_failing_run:
  "process example_failing_segs example_img example_next =
     (Some (ExternalError ''robot_seg.process''),
      example_next\<lparr>human_mask := Some example_human2,
                    bg_mask := Some example_bg2\<rparr>)"
  by (simp add: example_next_def example_defs eval_defs)

section \<open>The layers of a frame\<close>

text \<open>
  Claim C1. Whenever \<^verbatim>\<open>process\<close> completes on a frame, the human, background and robot
  masks it stores are arrays of one shape and pairwise disjoint: no pixel is marked in
  two of the three.
\<close>

theorem final_masks_disjoint:
  assumes "process segs img s = (None, s')"
  shows "\<exists>H B R. human_mask s' = Some H \<and> bg_mask s' = Some B \<and> robot_mask s' = Some R \<and>
           shape B = shape H \<and> shape R = shape H \<and>
           pixels H \<inter> pixels B = {} \<and> pixels H \<inter> pixels R = {} \<and> pixels B \<inter> pixels R = {}"
proof -
  from process_None [OF assms] obtain H R m1 F r2 pm where
    F: "ufunc2 (\<and>) m1 (amap Not H) = Inr F" and
    r2: "demote R H F = Inr r2" and
    s': "s' = s\<lparr>rgb_img := Some img, human_mask := Some H, bg_mask := Some F,
                robot_mask := Some r2, puzzle_mask := pm\<rparr>"
    by blast
  from demote_pixels [OF r2] have sh: "shape H = shape R" "shape F = shape R" "shape r2 = shape R"
    and px: "pixels r2 = pixels R - pixels H - pixels F"
    by simp_all
  from sh have "shape F = shape H" by simp
  with F have "pixels H \<inter> pixels F = {}" by (rule and_not_disjoint)
  moreover from px have "pixels H \<inter> pixels r2 = {}" "pixels F \<inter> pixels r2 = {}" by auto
  ultimately show ?thesis using s' sh by simp
qed

theorem final_masks_disjoint_witness:
  "process example_segs example_img example_state = (None, example_next) \<and>
   pixels example_human \<inter>
     pixels example_bg = {} \<and>
   pixels example_human \<inter>
     pixels example_robot = {} \<and>
   pixels example_bg \<inter>
     pixels example_robot = {}"
proof -
  have run: "process example_segs example_img example_state = (None, example_next)"
    by (rule example_run)
  from final_masks_disjoint [OF run] run show ?thesis
    by (simp add: example_run)
qed

text \<open>
  Claim C4. When \<^verbatim>\<open>process\<close> completes on a frame whose raw human mask \<open>H\<close>, raw
  background mask \<open>B\<close> and non-ROI mask \<open>N\<close> lie on one pixel grid, the background mask it
  stores is \<open>(B \<or> N) \<and> \<not> H\<close> pixel by pixel. In particular, with an empty non-ROI mask,
  a human mask covering \<open>R1\<close> and a raw background mask covering \<open>R1 \<union> R2\<close>, the stored
  background mask covers \<open>R2\<close> without \<open>R1\<close>, which is \<open>R2\<close> for regions that do not overlap.
\<close>

theorem final_background_mask:
  assumes "process segs img s = (None, s')"
    and "nonROI s = Inr N"
    and "human_seg segs img = Inr (Some H)"
    and "bg_seg segs img = Inr (Some B)"
    and "shape B = shape H" and "shape N = shape H"
  shows "\<exists>F. bg_mask s' = Some F \<and>
           F = tabulate (nrows H) (ncols H) (\<lambda>i j. (elem B i j \<or> elem N i j) \<and> \<not> elem H i j) \<and>
           pixels F = (pixels B \<union> pixels N) - pixels H \<and>
           (\<forall>R1 R2. pixels N = {} \<and> pixels H = R1 \<and> pixels B = R1 \<union> R2 \<longrightarrow>
                pixels F = R2 - R1 \<and> (R1 \<inter> R2 = {} \<longrightarrow> pixels F = R2))"
proof -
  from process_None [OF assms(1)] assms(2-4) obtain m1 F where
    m1: "ufunc2 (\<or>) B N = Inr m1" and F: "ufunc2 (\<and>) m1 (amap Not H) = Inr F" and
    bg: "bg_mask s' = Some F"
    by auto
  from assms(5,6) have dims: "nrows B = nrows H" "ncols B = ncols H" "nrows N = nrows H" "ncols N = ncols H"
    by (simp_all add: shape_def)
  from assms(5,6) have "shape B = shape N" by simp
  with m1 have m1_eq: "m1 = tabulate (nrows H) (ncols H) (\<lambda>i j. elem B i j \<or> elem N i j)"
    by (simp add: ufunc2_same_shape dims)
  then have "shape m1 = shape (amap Not H)" by (simp add: shape_def)
  with F have "F = tabulate (nrows m1) (ncols m1) (\<lambda>i j. elem m1 i j \<and> elem (amap Not H) i j)"
    by (simp add: ufunc2_same_shape)
  also have "\<dots> = tabulate (nrows H) (ncols H) (\<lambda>i j. (elem B i j \<or> elem N i j) \<and> \<not> elem H i j)"
    unfolding m1_eq by (auto intro!: tabulate_cong)
  finally have F_eq: "F = tabulate (nrows H) (ncols H) (\<lambda>i j. (elem B i j \<or> elem N i j) \<and> \<not> elem H i j)" .
  have px: "pixels F = (pixels B \<union> pixels N) - pixels H"
    unfolding F_eq by (auto simp: pixels_def dims)
  from px have "\<forall>R1 R2. pixels N = {} \<and> pixels H = R1 \<and> pixels B = R1 \<union> R2 \<longrightarrow>
                pixels F = R2 - R1 \<and> (R1 \<inter> R2 = {} \<longrightarrow> pixels F = R2)"
    by auto
  with bg F_eq px show ?thesis by blast
qed

theorem final_background_mask_witness:
  "process example_segs example_img example_state = (None, example_next) \<and>
   bg_mask example_next = Some example_bg \<and>
   pixels example_bg =
     (pixels example_bg_raw \<union>
      pixels example_nonROI) -
     pixels example_human"
proof -
  have run: "process example_segs example_img example_state = (None, example_next)"
    by (rule example_run)
  have h: "human_seg example_segs example_img = Inr (Some example_human)"
    and b: "bg_seg example_segs example_img = Inr (Some example_bg_raw)"
    by (simp_all add: example_segs_def)
  have sh: "shape example_bg_raw =
            shape example_human"
           "shape example_nonROI =
            shape example_human"
    by (simp_all add: example_defs shape_def nrows_def)
  from final_background_mask [OF run example_nonROI h b sh] obtain F where
    F: "bg_mask example_next = Some F"
       "pixels F = (pixels example_bg_raw \<union>
                    pixels example_nonROI) -
                   pixels example_human"
    by blast
  from F(1) have "F = example_bg"
    by (simp add: example_run)
  with F run show ?thesis by simp
qed

text \<open>
  Claim C6. Taking the human mask and then the background mask out of the robot mask
  (lines 131 and 132) gives what taking them out in the other order gives, and on masks of
  one shape both give the single test \<open>robot \<and> \<not> human \<and> \<not> background\<close>.
\<close>

theorem robot_demotion_order:
  "demote robot human bg = demote robot bg human \<and>
   (shape human = shape robot \<and> shape bg = shape robot \<longrightarrow>
      demote robot human bg =
        Inr (tabulate (nrows robot) (ncols robot)
               (\<lambda>i j. elem robot i j \<and> \<not> elem human i j \<and> \<not> elem bg i j)))"
proof (cases "shape human = shape robot \<and> shape bg = shape robot")
  case True
  then have "demote robot human bg =
      Inr (tabulate (nrows robot) (ncols robot)
             (\<lambda>i j. elem robot i j \<and> \<not> elem human i j \<and> \<not> elem bg i j))"
    by (simp add: demote_same_shape)
  moreover from True have "demote robot bg human =
      Inr (tabulate (nrows robot) (ncols robot)
             (\<lambda>i j. elem robot i j \<and> \<not> elem bg i j \<and> \<not> elem human i j))"
    by (simp add: demote_same_shape)
  moreover have "tabulate (nrows robot) (ncols robot)
             (\<lambda>i j. elem robot i j \<and> \<not> elem bg i j \<and> \<not> elem human i j) =
      tabulate (nrows robot) (ncols robot)
             (\<lambda>i j. elem robot i j \<and> \<not> elem human i j \<and> \<not> elem bg i j)"
    by (rule tabulate_cong) auto
  ultimately show ?thesis by simp
next
  case False
  then have "demote robot human bg = Inl IndexError" "demote robot bg human = Inl IndexError"
    by (auto simp: demote_error)
  with False show ?thesis by simp
qed

theorem robot_demotion_order_witness:
  "shape example_human = shape example_robot_raw \<and>
   shape example_bg = shape example_robot_raw \<and>
   demote example_robot_raw example_human example_bg =
     demote example_robot_raw example_bg example_human \<and>
   demote example_robot_raw example_human example_bg = Inr example_robot"
proof -
  have sh: "shape example_human = shape example_robot_raw \<and>
            shape example_bg = shape example_robot_raw"
    by (simp add: example_defs shape_def nrows_def)
  have v: "tabulate (nrows example_robot_raw) (ncols example_robot_raw)
             (\<lambda>i j. elem example_robot_raw i j \<and> \<not> elem example_human i j \<and>
                    \<not> elem example_bg i j) = example_robot"
    by (simp add: example_defs nrows_def tabulate_def elem_def upt_2)
  from robot_demotion_order [of example_robot_raw example_human example_bg] sh v
  show ?thesis by auto
qed

section \<open>Failure of a frame\<close>

text \<open>
  Claim C9, as the source has it. \<^verbatim>\<open>process\<close> assigns each mask as soon as it is
  computed and nothing restores the fields when a later step raises. A failing call
  leaves the puzzle mask as it was; it leaves all four masks as they were when the failure
  is in the non-ROI step or in the human segmenter; past that point the human mask already
  holds the new frame's raw human mask.
\<close>

theorem process_failure_masks:
  assumes "process segs img s = (Some e, s')"
  shows "puzzle_mask s' = puzzle_mask s \<and>
         ((\<exists>e'. nonROI s = Inl e') \<or> (\<exists>e'. human_seg segs img = Inl e') \<longrightarrow>
            bg_mask s' = bg_mask s \<and> human_mask s' = human_mask s \<and> robot_mask s' = robot_mask s) \<and>
         (\<forall>N m. nonROI s = Inr N \<and> human_seg segs img = Inr m \<longrightarrow> human_mask s' = m)"
proof (cases "nonROI s")
  case (Inl e')
  with assms have "s' = s\<lparr>rgb_img := Some img\<rparr>"
    by (simp add: process_def Let_def)
  with Inl show ?thesis by simp
next
  case (Inr N)
  let ?s1 = "s\<lparr>rgb_img := Some img\<rparr>"
  from assms Inr have run: "seq (human_step segs img)
            (seq (bg_step segs img N)
              (seq (robot_step segs img) (puzzle_step segs img))) ?s1 = (Some e, s')"
    by (simp add: process_def Let_def)
  show ?thesis
  proof (cases "human_seg segs img")
    case (Inl e')
    then have "human_step segs img ?s1 = (Some e', ?s1)" by (simp add: human_step_def)
    with run have "s' = ?s1" by (simp add: seq_def)
    with Inl Inr show ?thesis by simp
  next
    case hs: (Inr m)
    let ?s2 = "?s1\<lparr>human_mask := m\<rparr>"
    from hs have h: "human_step segs img ?s1 = (None, ?s2)" by (simp add: human_step_def)
    with run have run2: "seq (bg_step segs img N)
              (seq (robot_step segs img) (puzzle_step segs img)) ?s2 = (Some e, s')"
      by (simp add: seq_def)
    obtain rb s3 where b: "bg_step segs img N ?s2 = (rb, s3)" by (cases "bg_step segs img N ?s2")
    note fb = bg_step_frame [OF b]
    have "human_mask s' = m \<and> puzzle_mask s' = puzzle_mask s"
    proof (cases rb)
      case (Some eb)
      with b run2 have "s' = s3" by (simp add: seq_def)
      with fb show ?thesis by simp
    next
      case None
      with b run2 have run3: "seq (robot_step segs img) (puzzle_step segs img) s3 = (Some e, s')"
        by (simp add: seq_def)
      obtain rr s4 where r: "robot_step segs img s3 = (rr, s4)" by (cases "robot_step segs img s3")
      note fr = robot_step_frame [OF r]
      show ?thesis
      proof (cases rr)
        case (Some er)
        with r run3 have "s' = s4" by (simp add: seq_def)
        with fr fb show ?thesis by simp
      next
        case None
        with r run3 have "puzzle_step segs img s4 = (Some e, s')" by (simp add: seq_def)
        then have "s' = s4" by (rule puzzle_step_Some)
        with fr fb show ?thesis by simp
      qed
    qed
    with hs Inr show ?thesis by simp
  qed
qed

theorem process_failure_masks_witness:
  "process example_failing_segs example_img example_next =
     (Some (ExternalError ''robot_seg.process''),
      example_next\<lparr>human_mask := Some example_human2, bg_mask := Some example_bg2\<rparr>) \<and>
   puzzle_mask (example_next\<lparr>human_mask := Some example_human2, bg_mask := Some example_bg2\<rparr>) =
     puzzle_mask example_next \<and>
   human_seg example_failing_segs example_img = Inr (Some example_human2) \<and>
   nonROI (init None) = Inl (AssertionError DepthProcessed) \<and>
   process example_segs example_img (init None) =
     (Some (AssertionError DepthProcessed), (init None)\<lparr>rgb_img := Some example_img\<rparr>) \<and>
   bg_mask ((init None)\<lparr>rgb_img := Some example_img\<rparr>) = bg_mask (init None) \<and>
   human_mask ((init None)\<lparr>rgb_img := Some example_img\<rparr>) = human_mask (init None) \<and>
   robot_mask ((init None)\<lparr>rgb_img := Some example_img\<rparr>) = robot_mask (init None)"
proof -
  have run: "process example_failing_segs example_img example_next =
     (Some (ExternalError ''robot_seg.process''),
      example_next\<lparr>human_mask := Some example_human2, bg_mask := Some example_bg2\<rparr>)"
    by (rule example_failing_run)
  have h: "human_seg example_failing_segs example_img = Inr (Some example_human2)"
    by (simp add: example_failing_segs_def)
  have n: "nonROI (init None) = Inl (AssertionError DepthProcessed)"
    by (simp add: nonROI_def init_def)
  have early: "process example_segs example_img (init None) =
     (Some (AssertionError DepthProcessed), (init None)\<lparr>rgb_img := Some example_img\<rparr>)"
    by (simp add: process_def nonROI_def init_def)
  from process_failure_masks [OF run] process_failure_masks [OF early] run h n early
  show ?thesis by simp
qed

text \<open>The claim as the spec words it fails on that frame: the call fails, and the stored
  human and background masks are no longer those of the last completed frame.\<close>

theorem process_not_atomic:
  "fst (process example_failing_segs example_img example_next) =
     Some (ExternalError ''robot_seg.process'') \<and>
   human_mask (snd (process example_failing_segs example_img example_next)) \<noteq>
     human_mask example_next \<and>
   bg_mask (snd (process example_failing_segs example_img example_next)) \<noteq>
     bg_mask example_next"
  unfolding example_failing_run by (simp add: example_run example_mask_defs)

section \<open>Depth, height and the region of no interest\<close>

text \<open>
  Claim C3. After \<^verbatim>\<open>process_depth\<close> on a depth frame \<open>d\<close> whose height map has the shape
  of \<open>d\<close>, the mask \<^verbatim>\<open>nonROI\<close> returns marks a pixel exactly when the magnitude of its
  depth is below \<open>1e-3\<close> or its height is above \<open>0.5\<close>; the mask is the same whatever
  state the interpreter was in before the depth frame came (\<open>s\<close> and \<open>t\<close>).
\<close>

theorem nonROI_rule:
  assumes "estimator d = Inr h" and "shape h = shape d"
  shows "\<exists>m hm. height_map (snd (process_depth estimator d s)) = Some hm \<and>
           depth (snd (process_depth estimator d s)) = Some d \<and>
           nonROI (snd (process_depth estimator d s)) = Inr m \<and>
           shape m = shape d \<and>
           (\<forall>i < nrows d. \<forall>j < ncols d.
              elem m i j \<longleftrightarrow> \<bar>elem d i j\<bar> < 1 / 1000 \<or> elem hm i j > 1 / 2) \<and>
           nonROI (snd (process_depth estimator d t)) = Inr m"
proof -
  let ?hm = "amap abs h"
  let ?m = "tabulate (nrows d) (ncols d)
              (\<lambda>i j. \<bar>elem d i j\<bar> < 1 / 1000 \<or> elem ?hm i j > 1 / 2)"
  have sh: "shape ?hm = shape d" using assms(2) by simp
  have run: "\<And>u. height_map (snd (process_depth estimator d u)) = Some ?hm \<and>
              depth (snd (process_depth estimator d u)) = Some d"
    using assms(1) by (simp add: process_depth_Inr [of estimator d h])
  have "\<And>u. nonROI (snd (process_depth estimator d u)) = Inr ?m"
    using run sh by (simp add: nonROI_same_shape)
  moreover have "shape ?m = shape d" by (simp add: shape_def)
  moreover have "\<forall>i < nrows d. \<forall>j < ncols d.
              elem ?m i j \<longleftrightarrow> \<bar>elem d i j\<bar> < 1 / 1000 \<or> elem ?hm i j > 1 / 2"
    by simp
  ultimately show ?thesis using run by blast
qed

theorem nonROI_rule_witness:
  "example_estimator example_depth = Inr (Array2 2 [[0, 0], [0, - 2]]) \<and>
   shape (Array2 2 [[0, 0], [0, - 2 :: real]]) = shape example_depth \<and>
   nonROI (snd (process_depth example_estimator example_depth (init None))) =
     Inr example_nonROI \<and>
   nonROI (snd (process_depth example_estimator example_depth example_next)) =
     Inr example_nonROI"
proof -
  have e: "example_estimator example_depth = Inr (Array2 2 [[0, 0], [0, - 2]])"
    by (simp add: example_estimator_def)
  have sh: "shape (Array2 2 [[0, 0], [0, - 2 :: real]]) = shape example_depth"
    by (simp add: example_depth_def shape_def nrows_def)
  from nonROI_rule [where estimator = example_estimator and d = example_depth
      and s = "init None" and t = example_next, OF e sh] obtain m where
    m: "nonROI (snd (process_depth example_estimator example_depth (init None))) = Inr m"
       "nonROI (snd (process_depth example_estimator example_depth example_next)) = Inr m"
    by blast
  from m(1) have "m = example_nonROI"
    using example_nonROI by (simp add: example_state_def)
  with m e sh show ?thesis by simp
qed

text \<open>
  Claim C5, on the height estimator as the specification describes it. For a calibrated
  reference frame and a current depth frame of the same shape, \<^verbatim>\<open>process_depth\<close> completes
  and stores a height map of that shape whose value at every pixel is the magnitude of the
  difference between the reference depth and the current depth there.
\<close>

theorem height_map_formula:
  assumes "shape ref = shape d"
  shows "\<exists>h. process_depth (HeightEstimator_apply (HeightEstimator_calibrate ref)) d s =
               (None, s\<lparr>depth := Some d, height_map := Some h,
                        human_seg_height := Some h, robot_seg_height := Some h\<rparr>) \<and>
             shape h = shape d \<and>
             (\<forall>i < nrows d. \<forall>j < ncols d. elem h i j = \<bar>elem ref i j - elem d i j\<bar>)"
proof -
  let ?diff = "tabulate (nrows d) (ncols d) (\<lambda>i j. elem ref i j - elem d i j)"
  have "HeightEstimator_apply (HeightEstimator_calibrate ref) d = Inr ?diff"
    using assms by (simp add: HeightEstimator_apply_def HeightEstimator_calibrate_def)
  then have "process_depth (HeightEstimator_apply (HeightEstimator_calibrate ref)) d s =
     (None, s\<lparr>depth := Some d, height_map := Some (amap abs ?diff),
              human_seg_height := Some (amap abs ?diff),
              robot_seg_height := Some (amap abs ?diff)\<rparr>)"
    by (simp add: process_depth_Inr [of _ d ?diff])
  moreover have "shape (amap abs ?diff) = shape d" by (simp add: shape_def)
  moreover have "\<forall>i < nrows d. \<forall>j < ncols d.
      elem (amap abs ?diff) i j = \<bar>elem ref i j - elem d i j\<bar>"
    by simp
  ultimately show ?thesis by blast
qed

theorem height_map_formula_witness:
  "shape example_reference = shape example_current \<and>
   height_map (snd (process_depth
       (HeightEstimator_apply (HeightEstimator_calibrate example_reference))
       example_current (init None))) =
     Some (Array2 2 [[3 / 10, 3 / 10], [3 / 10, 3 / 10]]) \<and>
   (\<exists>h. process_depth (HeightEstimator_apply (HeightEstimator_calibrate example_reference))
          example_current (init None) =
            (None, (init None)\<lparr>depth := Some example_current, height_map := Some h,
                               human_seg_height := Some h, robot_seg_height := Some h\<rparr>) \<and>
         (\<forall>i < nrows example_current. \<forall>j < ncols example_current.
            elem h i j = \<bar>elem example_reference i j - elem example_current i j\<bar>))"
proof -
  have sh: "shape example_reference = shape example_current"
    by (simp add: example_reference_def example_current_def shape_def nrows_def)
  have v: "height_map (snd (process_depth
       (HeightEstimator_apply (HeightEstimator_calibrate example_reference))
       example_current (init None))) =
     Some (Array2 2 [[3 / 10, 3 / 10], [3 / 10, 3 / 10]])"
    by (simp add: example_reference_def example_current_def HeightEstimator_apply_def
          HeightEstimator_calibrate_def eval_defs)
  from height_map_formula [OF sh, of "init None"] sh v show ?thesis
    by blast
qed

section \<open>Layer queries\<close>

text \<open>
  Claim C7. A layer name outside the four names \<^verbatim>\<open>get_layer\<close> admits, \<^verbatim>\<open>"bg"\<close>,
  \<^verbatim>\<open>"human"\<close>, \<^verbatim>\<open>"robot"\<close> and \<^verbatim>\<open>"puzzle"\<close>, makes the call fail at the assertion of line
  182, the failure the specification calls \<open>UnknownLayer\<close>, whatever the other arguments
  and the state; so does \<^verbatim>\<open>"banana"\<close>.
\<close>

theorem get_layer_unknown:
  assumes "layer_name \<notin> {''bg'', ''human'', ''robot'', ''puzzle''}"
  shows "get_layer cv s layer_name mask_only BEV_rectify = Inl UnknownLayer"
  using assms by (simp add: get_layer_def)

theorem get_layer_unknown_witness:
  "''banana'' \<notin> {''bg'', ''human'', ''robot'', ''puzzle''} \<and>
   get_layer example_cv example_next ''banana'' False False = Inl UnknownLayer"
proof -
  have h: "''banana'' \<notin> {''bg'', ''human'', ''robot'', ''puzzle''}" by simp
  from get_layer_unknown [OF h] h show ?thesis by simp
qed

text \<open>
  Claim C8, as the source has it. For a query under one of the four names whose layer
  lines 184 to 189 form without an exception, which a query for the mask alone always
  does, asking for rectification with no bird-eye-view matrix stored fails at the
  assertion of line 192 (\<open>NoTransformConfigured\<close>); with a matrix stored, a rectified
  query that returns gives a layer of the dimensions of the layer formed before
  rectification.
\<close>

theorem rectified_layer_query:
  "(layer_name \<in> {''bg'', ''human'', ''robot'', ''puzzle''} \<and> mask_only \<longrightarrow>
      get_layer cv (s\<lparr>BEV_trans_mat := None\<rparr>) layer_name mask_only True =
        Inl NoTransformConfigured) \<and>
   (layer_name \<in> {''bg'', ''human'', ''robot'', ''puzzle''} \<and>
    form_layer s layer_name mask_only = Inr l \<longrightarrow>
      get_layer cv (s\<lparr>BEV_trans_mat := None\<rparr>) layer_name mask_only True =
        Inl NoTransformConfigured \<and>
      (\<forall>out. get_layer cv (s\<lparr>BEV_trans_mat := Some M\<rparr>) layer_name mask_only True = Inr out \<longrightarrow>
         layer_shape out = layer_shape l \<and> layer_shape l \<noteq> None))"
proof (intro conjI impI allI)
  assume "layer_name \<in> {''bg'', ''human'', ''robot'', ''puzzle''} \<and> mask_only"
  then show "get_layer cv (s\<lparr>BEV_trans_mat := None\<rparr>) layer_name mask_only True =
        Inl NoTransformConfigured"
    by (auto simp: get_layer_def form_layer_def rectify_layer_def Let_def)
next
  assume "layer_name \<in> {''bg'', ''human'', ''robot'', ''puzzle''} \<and>
    form_layer s layer_name mask_only = Inr l"
  then show "get_layer cv (s\<lparr>BEV_trans_mat := None\<rparr>) layer_name mask_only True =
        Inl NoTransformConfigured"
    by (auto simp: get_layer_def rectify_layer_def)
next
  fix out
  assume a: "layer_name \<in> {''bg'', ''human'', ''robot'', ''puzzle''} \<and>
    form_layer s layer_name mask_only = Inr l"
    and g: "get_layer cv (s\<lparr>BEV_trans_mat := Some M\<rparr>) layer_name mask_only True = Inr out"
  from a g obtain l1 where r: "rectify_layer cv (s\<lparr>BEV_trans_mat := Some M\<rparr>) l = Inr l1"
    and o: "(if mask_only then astype_bool l1 else Inr l1) = Inr out"
    by (auto simp: get_layer_def split: sum.splits if_splits)
  from o have "layer_shape out = layer_shape l1"
    by (auto dest: astype_bool_shape split: if_splits)
  with rectify_layer_shape [OF r] show "layer_shape out = layer_shape l" by simp
  from rectify_layer_shape [OF r] show "layer_shape l \<noteq> None" by simp
qed

theorem rectified_layer_query_witness:
  "''bg'' \<in> {''bg'', ''human'', ''robot'', ''puzzle''} \<and>
   form_layer example_next ''bg'' True = Inr (BoolLayer example_bg) \<and>
   get_layer example_cv (example_next\<lparr>BEV_trans_mat := None\<rparr>) ''bg'' True True =
     Inl NoTransformConfigured \<and>
   get_layer example_cv (example_next\<lparr>BEV_trans_mat := Some example_homography\<rparr>)
     ''bg'' True True = Inr (BoolLayer example_bg) \<and>
   layer_shape (BoolLayer example_bg) = Some (2, 2)"
proof -
  have n: "''bg'' \<in> {''bg'', ''human'', ''robot'', ''puzzle''}" by simp
  have f: "form_layer example_next ''bg'' True = Inr (BoolLayer example_bg)"
    by (simp add: form_layer_def layer_mask_def example_run)
  have g: "get_layer example_cv (example_next\<lparr>BEV_trans_mat := Some example_homography\<rparr>)
     ''bg'' True True = Inr (BoolLayer example_bg)"
    by (simp add: layer_defs example_run example_cv_def example_mask_defs amap_def
          tabulate_def nrows_def elem_def upt_2 shape_def)
  have d: "layer_shape (BoolLayer example_bg) = Some (2, 2)"
    by (simp add: layer_shape_def shape_def nrows_def example_bg_def)
  from rectified_layer_query
    [of "''bg''" True example_cv example_next "BoolLayer example_bg" example_homography]
    n f g d
  show ?thesis by blast
qed

text \<open>The claim as the spec words it fails on a query for an unknown layer, and on a
  colour layer asked before any frame was processed: both end before line 192, with
  another exception.\<close>

theorem rectify_fails_earlier:
  "BEV_trans_mat (init None) = None \<and>
   get_layer example_cv (init None) ''banana'' False True = Inl UnknownLayer \<and>
   get_layer example_cv (init None) ''banana'' False True \<noteq> Inl NoTransformConfigured \<and>
   get_layer example_cv (init None) ''bg'' False True = Inl TypeError"
  by (simp add: layer_defs init_def)

section \<open>The state estimator and its caches\<close>

text \<open>
  Claim C10. Whatever the arguments, \<^verbatim>\<open>Base.__init__\<close> and \<^verbatim>\<open>StateEstimator.__init__\<close>
  end with an \<open>AttributeError\<close>: line 37 reads \<^verbatim>\<open>self.state_names\<close>, which nothing has
  assigned and no class defines, before any cache is allocated, so no instance is
  produced.
\<close>

theorem constructor_raises:
  "Base_init Base_names junk signal_number state_number signal_cache_limit state_cache_limit
     signal_names state_names = Inl (AttributeError ''state_names'') \<and>
   StateEstimator_init junk signal_number signal_cache_limit state_cache_limit signal_names
     = Inl (AttributeError ''state_names'')"
  by (simp add: Base_init_def StateEstimator_init_def getattr_def Base_names_def
        StateEstimator_names_def)

text \<open>
  Claim C2. On a cache of \<open>C\<close> rows, \<open>C\<close> at least one, of \<open>D\<close> entries each, appending
  items of \<open>D\<close> entries with \<^verbatim>\<open>_append_with_number_limit\<close>, the count growing by one with
  each append, never fails; the logical length is then the number of items or \<open>C\<close>,
  whichever is less, and the rows up to it are the last items appended, oldest first: all
  of them when fewer than \<open>C\<close> were appended, the last \<open>C\<close> when more were.
\<close>

theorem ring_cache_append:
  assumes "nrows cache = C" and "0 < C" and "ncols cache = D"
    and "\<forall>x \<in> set items. length x = D"
  shows "\<exists>cache'. append_all cache (int C) 0 items = Inr (cache', int (length items)) \<and>
           logical_length (int C) (int (length items)) = min (length items) C \<and>
           snapshot cache' (int C) (int (length items)) = drop (length items - C) items \<and>
           (length items < C \<longrightarrow>
              logical_length (int C) (int (length items)) = length items \<and>
              snapshot cache' (int C) (int (length items)) = items) \<and>
           (C < length items \<longrightarrow>
              logical_length (int C) (int (length items)) = C \<and>
              length (snapshot cache' (int C) (int (length items))) = C)"
proof -
  have "snapshot cache (int C) (int 0) = drop (0 - C) []"
    by (simp add: snapshot_def logical_length_def)
  from append_all_snapshot [OF assms(1-4) _ this] obtain cache' where
    run: "append_all cache (int C) 0 items = Inr (cache', int (length items))" and
    snap: "snapshot cache' (int C) (int (length items)) = drop (length items - C) items"
    by auto
  have len: "logical_length (int C) (int (length items)) = min (length items) C"
    by (simp add: logical_length_def)
  have few: "length items < C \<longrightarrow>
      logical_length (int C) (int (length items)) = length items \<and>
      snapshot cache' (int C) (int (length items)) = items"
    using snap len by simp
  have many: "C < length items \<longrightarrow>
      logical_length (int C) (int (length items)) = C \<and>
      length (snapshot cache' (int C) (int (length items))) = C"
    using snap len assms(2) by auto
  from run len snap few many show ?thesis by blast
qed

text \<open>Five items into a cache of three rows: the last three remain, oldest first.\<close>

theorem ring_cache_append_witness:
  "nrows example_cache = 3 \<and> 0 < (3 :: nat) \<and> ncols example_cache = 2 \<and>
   map length example_items = [2, 2, 2, 2, 2] \<and>
   append_all example_cache 3 0 example_items =
     Inr (Array2 2 [[3, 30], [4, 40], [5, 50]], 5) \<and>
   logical_length 3 5 = 3 \<and>
   snapshot (Array2 2 [[3, 30], [4, 40], [5, 50 :: real]]) 3 5 =
     [[3, 30], [4, 40], [5, 50]]"
proof -
  have h1: "nrows example_cache = 3" and h3: "ncols example_cache = 2"
    by (simp_all add: example_cache_def nrows_def)
  have h2: "0 < (3 :: nat)" by simp
  have h4: "\<forall>x \<in> set example_items. length x = 2"
    by (simp add: example_items_def)
  have run: "append_all example_cache 3 0 example_items =
     Inr (Array2 2 [[3, 30], [4, 40], [5, 50]], 5)"
    by (simp add: example_cache_def example_items_def append_with_number_limit_def
          set_row_def set_slice_rows_def slice_rows_def slice_bound_def py_index_def
          nrows_def Let_def)
  have n: "length example_items = 5" "drop 2 example_items = [[3, 30], [4, 40], [5, 50]]"
    "map length example_items = [2, 2, 2, 2, 2]"
    by (simp_all add: example_items_def)
  from ring_cache_append [OF h1 h2 h3 h4] obtain c where
    c: "append_all example_cache (int 3) 0 example_items = Inr (c, int (length example_items))"
       "logical_length (int 3) (int (length example_items)) = min (length example_items) 3"
       "snapshot c (int 3) (int (length example_items)) =
          drop (length example_items - 3) example_items"
    by blast
  from c(1) run have "c = Array2 2 [[3, 30], [4, 40], [5, 50]]" by simp
  with c(2,3) n h1 h2 h3 run show ?thesis by simp
qed

end
